theory Spec2Isabelle
  imports Main
begin

section \<open>Python values, errors and the vendor SDK's types\<close>

text \<open>
  The repository is glue over the vendor SDK \<^verbatim>\<open>box_sdk_gen\<close>. The SDK is not part of the
  repository, so its functions are parameters of the model (the record \<open>sdk\<close> below) and
  its classes are type parameters:
  \<^item> \<open>'e\<close>: whatever exception an SDK function raises;
  \<^item> \<open>'w\<close>: the world the SDK's network layer acts on;
  \<^item> \<open>'m\<close>, \<open>'i\<close>, \<open>'r\<close>: \<^verbatim>\<open>IntelligenceMode\<close>, \<^verbatim>\<open>IntelligenceItem\<close> and
    \<^verbatim>\<open>IntelligenceResponse\<close> of \<^verbatim>\<open>utils.ai_schemas\<close>;
  \<^item> \<open>'sd\<close>: the SDK's \<^verbatim>\<open>SerializedData\<close>;
  \<^item> \<open>'a\<close>, \<open>'n\<close>: \<^verbatim>\<open>Authentication\<close> and \<^verbatim>\<open>NetworkSession\<close> objects.
\<close>

datatype 'e error =
    AttributeError  \<comment> \<open>an attribute read on \<^verbatim>\<open>None\<close>\<close>
  | TypeError       \<comment> \<open>\<^verbatim>\<open>{**x}\<close> on something that is not a mapping\<close>
  | Raised 'e       \<comment> \<open>an exception raised inside the SDK\<close>

text \<open>The values the two request dictionaries hold.\<close>

datatype ('m, 'i) pyval =
    PyNone
  | PyStr string
  | PyMode 'm
  | PyItems "'i list"

text \<open>A Python \<^verbatim>\<open>dict\<close> keeps insertion order: an association list.\<close>

type_synonym ('m, 'i) pydict = "(string \<times> ('m, 'i) pyval) list"

type_synonym hdict = "(string \<times> string option) list"  \<comment> \<open>\<^verbatim>\<open>Dict[str, Optional[str]]\<close>\<close>

type_synonym hmap = "(string \<times> string) list"  \<comment> \<open>\<^verbatim>\<open>Dict[str, str]\<close>\<close>

type_synonym addr = nat

text \<open>
  \<^verbatim>\<open>FetchOptions\<close> with the keyword arguments the repository passes; the SDK's other
  fields keep their defaults and live in the record's extension. The fields \<open>fo_auth\<close> and
  \<open>fo_network_session\<close> are the keyword arguments \<^verbatim>\<open>auth\<close> and \<^verbatim>\<open>network_session\<close>.
\<close>

record ('sd, 'a, 'n) FetchOptions =
  http_method :: string  \<comment> \<open>the keyword argument \<^verbatim>\<open>method\<close>\<close>
  headers :: hmap
  data :: 'sd
  content_type :: string
  response_format :: string
  fo_auth :: "'a option"
  fo_network_session :: "'n option"

record 'sd FetchResponse =
  response_data :: 'sd  \<comment> \<open>\<^verbatim>\<open>response.data\<close>\<close>

text \<open>
  The SDK functions \<^verbatim>\<open>intelligence.py\<close> imports. \<open>prepare_params\<close> is handed a reference to
  a dictionary: beside its result it returns the contents of that dictionary after the
  call, so that the model does not assume that the SDK leaves its argument alone.
  \<open>deserialize\<close> is \<^verbatim>\<open>deserialize(_, IntelligenceResponse)\<close>.
\<close>

record ('e, 'w, 'm, 'i, 'sd, 'r, 'a, 'n) sdk =
  NetworkSession :: "'e + 'n"  \<comment> \<open>the constructor call \<^verbatim>\<open>NetworkSession()\<close>\<close>
  base_url :: "'n \<Rightarrow> string"  \<comment> \<open>\<^verbatim>\<open>ns.base_urls.base_url\<close>\<close>
  prepare_params :: "hdict \<Rightarrow> ('e + hmap) \<times> hdict"
  serialize :: "('m, 'i) pydict \<Rightarrow> 'e + 'sd"
  fetch :: "string \<Rightarrow> ('sd, 'a, 'n) FetchOptions \<Rightarrow> 'w \<Rightarrow> ('e + 'sd FetchResponse) \<times> 'w"
  deserialize :: "'sd \<Rightarrow> 'e + 'r"

text \<open>Every call into the SDK is logged with its arguments and its outcome.\<close>

datatype ('e, 'm, 'i, 'sd, 'r, 'a, 'n) sdk_call =
    Prepare_params hdict "'e + hmap"
  | Serialize "('m, 'i) pydict" "'e + 'sd"
  | Fetch string "('sd, 'a, 'n) FetchOptions" "'e + 'sd FetchResponse"
  | Deserialize 'sd "'e + 'r"

section \<open>\<^verbatim>\<open>utils/intelligence.py\<close>\<close>

record ('a, 'n) IntelligenceManager =
  auth :: "'a option"
  network_session :: "'n option"

text \<open>
  The state a method runs in: the manager object \<open>self\<close>, the heap of header dictionaries
  (a reference is an index; a new dictionary is appended), the log of SDK calls and the
  SDK's world.
\<close>

record ('e, 'w, 'm, 'i, 'sd, 'r, 'a, 'n) state =
  self :: "('a, 'n) IntelligenceManager"
  dicts :: "hdict list"
  calls :: "('e, 'm, 'i, 'sd, 'r, 'a, 'n) sdk_call list"
  world :: 'w

text \<open>\<^verbatim>\<open>IntelligenceManager.__init__\<close> (lines 32 to 40).\<close>

definition IntelligenceManager_init ::
  "('e, 'w, 'm, 'i, 'sd, 'r, 'a, 'n) sdk \<Rightarrow> 'a option \<Rightarrow> 'n option
    \<Rightarrow> 'e error + ('a, 'n) IntelligenceManager" where
  "IntelligenceManager_init sd auth_arg network_session_arg =
     (case network_session_arg of
        None \<Rightarrow>
          (case NetworkSession sd of
             Inl e \<Rightarrow> Inl (Raised e)
           | Inr ns \<Rightarrow> Inr \<lparr>auth = auth_arg, network_session = Some ns\<rparr>)
      | Some ns \<Rightarrow> Inr \<lparr>auth = auth_arg, network_session = Some ns\<rparr>)"

text \<open>
  Statements run in sequence; an exception ends the method and goes to the caller with the
  state reached.
\<close>

definition and_then ::
  "('s \<Rightarrow> ('x + 'v) \<times> 's) \<Rightarrow> ('v \<Rightarrow> 's \<Rightarrow> ('x + 'u) \<times> 's) \<Rightarrow> 's \<Rightarrow> ('x + 'u) \<times> 's" where
  "and_then m f s = (case m s of (Inl e, s') \<Rightarrow> (Inl e, s') | (Inr v, s') \<Rightarrow> f v s')"

text \<open>The dictionary display \<^verbatim>\<open>{}\<close>: a new, empty dictionary.\<close>

definition new_dict ::
  "('e, 'w, 'm, 'i, 'sd, 'r, 'a, 'n) state
    \<Rightarrow> ('e error + addr) \<times> ('e, 'w, 'm, 'i, 'sd, 'r, 'a, 'n) state" where
  "new_dict s = (Inr (length (dicts s)), s\<lparr>dicts := dicts s @ [[]]\<rparr>)"

text \<open>\<^verbatim>\<open>{**x}\<close>: a new dictionary with the items of \<open>x\<close>.\<close>

definition copy_dict ::
  "addr \<Rightarrow> ('e, 'w, 'm, 'i, 'sd, 'r, 'a, 'n) state
    \<Rightarrow> ('e error + addr) \<times> ('e, 'w, 'm, 'i, 'sd, 'r, 'a, 'n) state" where
  "copy_dict x s =
     (if x < length (dicts s)
      then (Inr (length (dicts s)), s\<lparr>dicts := dicts s @ [dicts s ! x]\<rparr>)
      else (Inl TypeError, s))"

text \<open>
  The URL: the join of \<^verbatim>\<open>self.network_session.base_urls.base_url\<close> and the path. The
  attribute read fails on \<^verbatim>\<open>None\<close>.
\<close>

definition join_base_url ::
  "('e, 'w, 'm, 'i, 'sd, 'r, 'a, 'n) sdk \<Rightarrow> string \<Rightarrow> ('e, 'w, 'm, 'i, 'sd, 'r, 'a, 'n) state
    \<Rightarrow> ('e error + string) \<times> ('e, 'w, 'm, 'i, 'sd, 'r, 'a, 'n) state" where
  "join_base_url sd path s =
     (case network_session (self s) of
        None \<Rightarrow> (Inl AttributeError, s)
      | Some ns \<Rightarrow> (Inr (base_url sd ns @ path), s))"

text \<open>The calls into the SDK: each one is logged, and an exception becomes \<open>Raised\<close>.\<close>

definition raised :: "'e + 'x \<Rightarrow> 'e error + 'x" where
  "raised r = (case r of Inl e \<Rightarrow> Inl (Raised e) | Inr v \<Rightarrow> Inr v)"

definition call_prepare_params ::
  "('e, 'w, 'm, 'i, 'sd, 'r, 'a, 'n) sdk \<Rightarrow> addr \<Rightarrow> ('e, 'w, 'm, 'i, 'sd, 'r, 'a, 'n) state
    \<Rightarrow> ('e error + hmap) \<times> ('e, 'w, 'm, 'i, 'sd, 'r, 'a, 'n) state" where
  "call_prepare_params sd x s =
     (case prepare_params sd (dicts s ! x) of
        (r, d') \<Rightarrow>
          (raised r,
           s\<lparr>dicts := (dicts s)[x := d'],
             calls := calls s @ [Prepare_params (dicts s ! x) r]\<rparr>))"

definition call_serialize ::
  "('e, 'w, 'm, 'i, 'sd, 'r, 'a, 'n) sdk \<Rightarrow> ('m, 'i) pydict \<Rightarrow> ('e, 'w, 'm, 'i, 'sd, 'r, 'a, 'n) state
    \<Rightarrow> ('e error + 'sd) \<times> ('e, 'w, 'm, 'i, 'sd, 'r, 'a, 'n) state" where
  "call_serialize sd body s =
     (raised (serialize sd body),
      s\<lparr>calls := calls s @ [Serialize body (serialize sd body)]\<rparr>)"

definition call_fetch ::
  "('e, 'w, 'm, 'i, 'sd, 'r, 'a, 'n) sdk \<Rightarrow> string \<Rightarrow> ('sd, 'a, 'n) FetchOptions
    \<Rightarrow> ('e, 'w, 'm, 'i, 'sd, 'r, 'a, 'n) state
    \<Rightarrow> ('e error + 'sd FetchResponse) \<times> ('e, 'w, 'm, 'i, 'sd, 'r, 'a, 'n) state" where
  "call_fetch sd url options s =
     (case fetch sd url options (world s) of
        (r, w') \<Rightarrow> (raised r, s\<lparr>calls := calls s @ [Fetch url options r], world := w'\<rparr>))"

definition call_deserialize ::
  "('e, 'w, 'm, 'i, 'sd, 'r, 'a, 'n) sdk \<Rightarrow> 'sd \<Rightarrow> ('e, 'w, 'm, 'i, 'sd, 'r, 'a, 'n) state
    \<Rightarrow> ('e error + 'r) \<times> ('e, 'w, 'm, 'i, 'sd, 'r, 'a, 'n) state" where
  "call_deserialize sd d s =
     (raised (deserialize sd d),
      s\<lparr>calls := calls s @ [Deserialize d (deserialize sd d)]\<rparr>)"

text \<open>
  \<^verbatim>\<open>intelligence_ask\<close> (lines 42 to 79), statement by statement and, inside the call of
  \<^verbatim>\<open>fetch\<close>, argument by argument in Python's order of evaluation: the URL, then
  \<^verbatim>\<open>serialize(request_body)\<close>, then \<^verbatim>\<open>self.auth\<close> and \<^verbatim>\<open>self.network_session\<close>, then the
  call itself. \<open>extra_headers\<close> is \<^verbatim>\<open>None\<close> or a reference to the caller's dictionary.
\<close>

definition intelligence_ask ::
  "('e, 'w, 'm, 'i, 'sd, 'r, 'a, 'n) sdk \<Rightarrow> 'm \<Rightarrow> string \<Rightarrow> 'i list \<Rightarrow> addr option
    \<Rightarrow> ('e, 'w, 'm, 'i, 'sd, 'r, 'a, 'n) state
    \<Rightarrow> ('e error + 'r) \<times> ('e, 'w, 'm, 'i, 'sd, 'r, 'a, 'n) state" where
  "intelligence_ask sd mode prompt items extra_headers =
     and_then (case extra_headers of None \<Rightarrow> new_dict | Some x \<Rightarrow> (\<lambda>s. (Inr x, s)))
       (\<lambda>extra_headers'.
     let request_body =
           [(''mode'', PyMode mode), (''prompt'', PyStr prompt), (''items'', PyItems items)]
     in
     and_then (copy_dict extra_headers') (\<lambda>c.
     and_then (call_prepare_params sd c) (\<lambda>headers_map.
     and_then (join_base_url sd ''/ai/ask'') (\<lambda>url.
     and_then (call_serialize sd request_body) (\<lambda>d.
     and_then (\<lambda>s. call_fetch sd url
                 \<lparr>http_method = ''POST'', headers = headers_map, data = d,
                  content_type = ''application/json'', response_format = ''json'',
                  fo_auth = auth (self s), fo_network_session = network_session (self s)\<rparr> s)
       (\<lambda>response.
     call_deserialize sd (response_data response)))))))"

text \<open>\<^verbatim>\<open>intelligence_text_gen\<close> (lines 81 to 127), in the same way.\<close>

definition intelligence_text_gen ::
  "('e, 'w, 'm, 'i, 'sd, 'r, 'a, 'n) sdk \<Rightarrow> string \<Rightarrow> 'i list \<Rightarrow> 'i list option \<Rightarrow> addr option
    \<Rightarrow> ('e, 'w, 'm, 'i, 'sd, 'r, 'a, 'n) state
    \<Rightarrow> ('e error + 'r) \<times> ('e, 'w, 'm, 'i, 'sd, 'r, 'a, 'n) state" where
  "intelligence_text_gen sd prompt items dialogue_history extra_headers =
     and_then (case extra_headers of None \<Rightarrow> new_dict | Some x \<Rightarrow> (\<lambda>s. (Inr x, s)))
       (\<lambda>extra_headers'.
     let request_body =
           [(''prompt'', PyStr prompt), (''items'', PyItems items),
            (''dialogue_history'',
               case dialogue_history of None \<Rightarrow> PyNone | Some h \<Rightarrow> PyItems h)]
     in
     and_then (copy_dict extra_headers') (\<lambda>c.
     and_then (call_prepare_params sd c) (\<lambda>headers_map.
     and_then (join_base_url sd ''/ai/text_gen'') (\<lambda>url.
     and_then (call_serialize sd request_body) (\<lambda>d.
     and_then (\<lambda>s. call_fetch sd url
                 \<lparr>http_method = ''POST'', headers = headers_map, data = d,
                  content_type = ''application/json'', response_format = ''json'',
                  fo_auth = auth (self s), fo_network_session = network_session (self s)\<rparr> s)
       (\<lambda>response.
     call_deserialize sd (response_data response)))))))"

section \<open>\<^verbatim>\<open>workshops/sign/create_samples.py\<close>\<close>

text \<open>
  \<open>create_samples\<close> calls the SDK's \<^verbatim>\<open>client.folders.get_folder_by_id\<close> and the helpers
  \<^verbatim>\<open>create_box_folder\<close> and \<^verbatim>\<open>folder_upload\<close> of \<^verbatim>\<open>utils.box_utils\<close>. The three are
  parameters here; \<open>'c\<close> is the client, \<open>'f\<close> a folder object, \<open>'u\<close> what
  \<^verbatim>\<open>folder_upload\<close> returns. Each call is logged with its arguments.
\<close>

record ('e, 'w, 'c, 'f, 'u) box =
  get_folder_by_id :: "'c \<Rightarrow> string \<Rightarrow> 'w \<Rightarrow> ('e + 'f) \<times> 'w"
  create_box_folder :: "'c \<Rightarrow> string \<Rightarrow> 'f \<Rightarrow> 'w \<Rightarrow> ('e + 'f) \<times> 'w"
  folder_upload :: "'c \<Rightarrow> 'f \<Rightarrow> string \<Rightarrow> 'w \<Rightarrow> ('e + 'u) \<times> 'w"

datatype ('c, 'f) box_call =
    Get_folder_by_id 'c string
  | Create_box_folder 'c string 'f
  | Folder_upload 'c 'f string

record ('w, 'c, 'f) box_state =
  box_calls :: "('c, 'f) box_call list"
  box_world :: 'w

definition call_get_folder_by_id ::
  "('e, 'w, 'c, 'f, 'u) box \<Rightarrow> 'c \<Rightarrow> string \<Rightarrow> ('w, 'c, 'f) box_state
    \<Rightarrow> ('e + 'f) \<times> ('w, 'c, 'f) box_state" where
  "call_get_folder_by_id b client folder_id s =
     (case get_folder_by_id b client folder_id (box_world s) of
        (r, w') \<Rightarrow>
          (r, \<lparr>box_calls = box_calls s @ [Get_folder_by_id client folder_id],
               box_world = w'\<rparr>))"

definition call_create_box_folder ::
  "('e, 'w, 'c, 'f, 'u) box \<Rightarrow> 'c \<Rightarrow> string \<Rightarrow> 'f \<Rightarrow> ('w, 'c, 'f) box_state
    \<Rightarrow> ('e + 'f) \<times> ('w, 'c, 'f) box_state" where
  "call_create_box_folder b client folder_name parent s =
     (case create_box_folder b client folder_name parent (box_world s) of
        (r, w') \<Rightarrow>
          (r, \<lparr>box_calls = box_calls s @ [Create_box_folder client folder_name parent],
               box_world = w'\<rparr>))"

definition call_folder_upload ::
  "('e, 'w, 'c, 'f, 'u) box \<Rightarrow> 'c \<Rightarrow> 'f \<Rightarrow> string \<Rightarrow> ('w, 'c, 'f) box_state
    \<Rightarrow> ('e + 'u) \<times> ('w, 'c, 'f) box_state" where
  "call_folder_upload b client folder path s =
     (case folder_upload b client folder path (box_world s) of
        (r, w') \<Rightarrow>
          (r, \<lparr>box_calls = box_calls s @ [Folder_upload client folder path],
               box_world = w'\<rparr>))"

text \<open>
  \<open>create_samples\<close> (lines 12 to 22). The lookup of the folder with ID \<^verbatim>\<open>0\<close> is an
  argument of the first \<^verbatim>\<open>create_box_folder\<close>, so it is evaluated before that call; the
  result of creating \<^verbatim>\<open>signed docs\<close> and the result of the upload are dropped; the
  function returns \<^verbatim>\<open>None\<close>. There is no \<^verbatim>\<open>try\<close>: an exception of any call ends it.
\<close>

definition create_samples ::
  "('e, 'w, 'c, 'f, 'u) box \<Rightarrow> 'c \<Rightarrow> ('w, 'c, 'f) box_state
    \<Rightarrow> ('e + unit) \<times> ('w, 'c, 'f) box_state" where
  "create_samples b client =
     and_then (call_get_folder_by_id b client ''0'') (\<lambda>root.
     and_then (call_create_box_folder b client ''workshops'' root) (\<lambda>wks_folder.
     and_then (call_create_box_folder b client ''sign'' wks_folder) (\<lambda>module_folder.
     and_then (call_create_box_folder b client ''signed docs'' module_folder) (\<lambda>_.
     and_then (call_create_box_folder b client ''docs'' module_folder) (\<lambda>docs_folder.
     and_then (call_folder_upload b client docs_folder ''workshops/sign/content_samples/'') (\<lambda>_.
     (\<lambda>s. (Inr (), s))))))))"

section \<open>What the specification says, and what is observed\<close>

text \<open>
  The specification reduces both methods to one computation, ``build a dictionary,
  serialize it, POST it to a fixed path, deserialize the JSON response into a response
  DTO'', that differs ``only in endpoint path and payload shape''. \<open>spec_request\<close> is that
  computation, with the path and the dictionary as parameters; \<open>spec_post\<close> is its part
  after the default for \<open>extra_headers\<close>.
\<close>

definition spec_post ::
  "('e, 'w, 'm, 'i, 'sd, 'r, 'a, 'n) sdk \<Rightarrow> string \<Rightarrow> ('m, 'i) pydict \<Rightarrow> addr
    \<Rightarrow> ('e, 'w, 'm, 'i, 'sd, 'r, 'a, 'n) state
    \<Rightarrow> ('e error + 'r) \<times> ('e, 'w, 'm, 'i, 'sd, 'r, 'a, 'n) state" where
  "spec_post sd path request_body extra_headers' =
     and_then (copy_dict extra_headers') (\<lambda>c.
     and_then (call_prepare_params sd c) (\<lambda>headers_map.
     and_then (join_base_url sd path) (\<lambda>url.
     and_then (call_serialize sd request_body) (\<lambda>d.
     and_then (\<lambda>s. call_fetch sd url
                 \<lparr>http_method = ''POST'', headers = headers_map, data = d,
                  content_type = ''application/json'', response_format = ''json'',
                  fo_auth = auth (self s), fo_network_session = network_session (self s)\<rparr> s)
       (\<lambda>response.
     call_deserialize sd (response_data response))))))"

definition spec_request ::
  "('e, 'w, 'm, 'i, 'sd, 'r, 'a, 'n) sdk \<Rightarrow> string \<Rightarrow> ('m, 'i) pydict \<Rightarrow> addr option
    \<Rightarrow> ('e, 'w, 'm, 'i, 'sd, 'r, 'a, 'n) state
    \<Rightarrow> ('e error + 'r) \<times> ('e, 'w, 'm, 'i, 'sd, 'r, 'a, 'n) state" where
  "spec_request sd path request_body extra_headers =
     and_then (case extra_headers of None \<Rightarrow> new_dict | Some x \<Rightarrow> (\<lambda>s. (Inr x, s)))
       (spec_post sd path request_body)"

text \<open>The SDK calls a run added to the log.\<close>

definition new_calls ::
  "('e, 'w, 'm, 'i, 'sd, 'r, 'a, 'n) state \<Rightarrow> ('e, 'w, 'm, 'i, 'sd, 'r, 'a, 'n) state
    \<Rightarrow> ('e, 'm, 'i, 'sd, 'r, 'a, 'n) sdk_call list" where
  "new_calls s s' = drop (length (calls s)) (calls s')"

text \<open>The HTTP requests among them: the URL and the options of every call of \<^verbatim>\<open>fetch\<close>.\<close>

fun fetch_of ::
  "('e, 'm, 'i, 'sd, 'r, 'a, 'n) sdk_call \<Rightarrow> (string \<times> ('sd, 'a, 'n) FetchOptions) option" where
  "fetch_of (Fetch url options r) = Some (url, options)"
| "fetch_of (Prepare_params d r) = None"
| "fetch_of (Serialize b r) = None"
| "fetch_of (Deserialize d r) = None"

definition fetches ::
  "('e, 'm, 'i, 'sd, 'r, 'a, 'n) sdk_call list \<Rightarrow> (string \<times> ('sd, 'a, 'n) FetchOptions) list" where
  "fetches log = List.map_filter fetch_of log"

text \<open>The exception an SDK call ended with, if it raised.\<close>

fun raised_by :: "('e, 'm, 'i, 'sd, 'r, 'a, 'n) sdk_call \<Rightarrow> 'e option" where
  "raised_by (Prepare_params d r) = (case r of Inl e \<Rightarrow> Some e | Inr v \<Rightarrow> None)"
| "raised_by (Serialize b r) = (case r of Inl e \<Rightarrow> Some e | Inr v \<Rightarrow> None)"
| "raised_by (Fetch u options r) = (case r of Inl e \<Rightarrow> Some e | Inr v \<Rightarrow> None)"
| "raised_by (Deserialize d r) = (case r of Inl e \<Rightarrow> Some e | Inr v \<Rightarrow> None)"

text \<open>The dictionaries handed to \<^verbatim>\<open>serialize\<close>, each with what \<^verbatim>\<open>serialize\<close> made of it.\<close>

fun serialize_of ::
  "('e, 'm, 'i, 'sd, 'r, 'a, 'n) sdk_call \<Rightarrow> (('m, 'i) pydict \<times> ('e + 'sd)) option" where
  "serialize_of (Serialize b r) = Some (b, r)"
| "serialize_of (Prepare_params d r) = None"
| "serialize_of (Fetch url options r) = None"
| "serialize_of (Deserialize d r) = None"

definition serialized ::
  "('e, 'm, 'i, 'sd, 'r, 'a, 'n) sdk_call list \<Rightarrow> (('m, 'i) pydict \<times> ('e + 'sd)) list" where
  "serialized log = List.map_filter serialize_of log"

definition new_box_calls ::
  "('w, 'c, 'f) box_state \<Rightarrow> ('w, 'c, 'f) box_state \<Rightarrow> ('c, 'f) box_call list" where
  "new_box_calls s s' = drop (length (box_calls s)) (box_calls s')"

section \<open>A concrete SDK\<close>

text \<open>
  An SDK to run the model on. Exceptions, modes, items, responses, authentication and
  sessions are strings (a session is its base URL), serialized data is a list of strings and
  the world counts the requests sent. \<open>prepare_params\<close> drops the headers whose value is
  \<^verbatim>\<open>None\<close> and empties the dictionary it was handed.
\<close>

definition demo_sdk ::
  "(string, nat, string, string, string list, string, string, string) sdk" where
  "demo_sdk =
     \<lparr>NetworkSession = Inr ''https://api.box.com/2.0'',
      base_url = (\<lambda>ns. ns),
      prepare_params = (\<lambda>d. (Inr (List.map_filter (\<lambda>(k, v). map_option (Pair k) v) d), [])),
      serialize = (\<lambda>body. Inr (map fst body)),
      fetch = (\<lambda>url options w. (Inr \<lparr>response_data = [''answer'']\<rparr>, Suc w)),
      deserialize = (\<lambda>d. Inr (concat d))\<rparr>"

definition demo_state ::
  "(string, nat, string, string, string list, string, string, string) state" where
  "demo_state =
     \<lparr>self = \<lparr>auth = Some ''token'', network_session = Some ''https://api.box.com/2.0''\<rparr>,
      dicts = [[(''x-trace'', Some ''1''), (''x-skip'', None)]],
      calls = [],
      world = 0\<rparr>"

text \<open>Folders are paths; every helper succeeds.\<close>

definition demo_box :: "(string, nat, string, string, nat) box" where
  "demo_box =
     \<lparr>get_folder_by_id = (\<lambda>client folder_id w. (Inr folder_id, w)),
      create_box_folder =
        (\<lambda>client folder_name parent w. (Inr (parent @ ''/'' @ folder_name), Suc w)),
      folder_upload = (\<lambda>client folder path w. (Inr 3, Suc w))\<rparr>"

definition demo_box_state :: "(nat, string, string) box_state" where
  "demo_box_state = \<lparr>box_calls = [], box_world = 0\<rparr>"

section \<open>The two request methods are one computation\<close>

lemma intelligence_ask_request:
  "intelligence_ask sd mode prompt items extra_headers =
     spec_request sd ''/ai/ask''
       [(''mode'', PyMode mode), (''prompt'', PyStr prompt), (''items'', PyItems items)]
       extra_headers"
  by (simp add: intelligence_ask_def spec_request_def spec_post_def [abs_def])

lemma intelligence_text_gen_request:
  "intelligence_text_gen sd prompt items dialogue_history extra_headers =
     spec_request sd ''/ai/text_gen''
       [(''prompt'', PyStr prompt), (''items'', PyItems items),
        (''dialogue_history'', case dialogue_history of None \<Rightarrow> PyNone | Some h \<Rightarrow> PyItems h)]
       extra_headers"
  by (simp add: intelligence_text_gen_def spec_request_def spec_post_def [abs_def])

lemma spec_post_cases:
  fixes s :: "('e, 'w, 'm, 'i, 'sd, 'r, 'a, 'n) state"
  obtains (bad_ref)
    "\<not> x < length (dicts s)"
    "spec_post sd path body x s = (Inl TypeError, s)"
  | (prepare_raises) e d' s' where
    "x < length (dicts s)"
    "prepare_params sd (dicts s ! x) = (Inl e, d')"
    "spec_post sd path body x s = (Inl (Raised e), s')"
    "self s' = self s" "dicts s' = dicts s @ [d']" "world s' = world s"
    "calls s' = calls s @ [Prepare_params (dicts s ! x) (Inl e)]"
  | (no_session) hm d' s' where
    "x < length (dicts s)"
    "prepare_params sd (dicts s ! x) = (Inr hm, d')"
    "network_session (self s) = None"
    "spec_post sd path body x s = (Inl AttributeError, s')"
    "self s' = self s" "dicts s' = dicts s @ [d']" "world s' = world s"
    "calls s' = calls s @ [Prepare_params (dicts s ! x) (Inr hm)]"
  | (serialize_raises) hm d' ns e s' where
    "x < length (dicts s)"
    "prepare_params sd (dicts s ! x) = (Inr hm, d')"
    "network_session (self s) = Some ns"
    "serialize sd body = Inl e"
    "spec_post sd path body x s = (Inl (Raised e), s')"
    "self s' = self s" "dicts s' = dicts s @ [d']" "world s' = world s"
    "calls s' = calls s @ [Prepare_params (dicts s ! x) (Inr hm), Serialize body (Inl e)]"
  | (fetch_raises) hm d' ns d e w' s' where
    "x < length (dicts s)"
    "prepare_params sd (dicts s ! x) = (Inr hm, d')"
    "network_session (self s) = Some ns"
    "serialize sd body = Inr d"
    "fetch sd (base_url sd ns @ path)
       \<lparr>http_method = ''POST'', headers = hm, data = d, content_type = ''application/json'',
        response_format = ''json'', fo_auth = auth (self s), fo_network_session = Some ns\<rparr>
       (world s) = (Inl e, w')"
    "spec_post sd path body x s = (Inl (Raised e), s')"
    "self s' = self s" "dicts s' = dicts s @ [d']" "world s' = w'"
    "calls s' = calls s @
       [Prepare_params (dicts s ! x) (Inr hm), Serialize body (Inr d),
        Fetch (base_url sd ns @ path)
          \<lparr>http_method = ''POST'', headers = hm, data = d, content_type = ''application/json'',
           response_format = ''json'', fo_auth = auth (self s), fo_network_session = Some ns\<rparr>
          (Inl e)]"
  | (fetched) hm d' ns d resp w' s' where
    "x < length (dicts s)"
    "prepare_params sd (dicts s ! x) = (Inr hm, d')"
    "network_session (self s) = Some ns"
    "serialize sd body = Inr d"
    "fetch sd (base_url sd ns @ path)
       \<lparr>http_method = ''POST'', headers = hm, data = d, content_type = ''application/json'',
        response_format = ''json'', fo_auth = auth (self s), fo_network_session = Some ns\<rparr>
       (world s) = (Inr resp, w')"
    "spec_post sd path body x s = (raised (deserialize sd (response_data resp)), s')"
    "self s' = self s" "dicts s' = dicts s @ [d']" "world s' = w'"
    "calls s' = calls s @
       [Prepare_params (dicts s ! x) (Inr hm), Serialize body (Inr d),
        Fetch (base_url sd ns @ path)
          \<lparr>http_method = ''POST'', headers = hm, data = d, content_type = ''application/json'',
           response_format = ''json'', fo_auth = auth (self s), fo_network_session = Some ns\<rparr>
          (Inr resp),
        Deserialize (response_data resp) (deserialize sd (response_data resp))]"
proof (cases "x < length (dicts s)")
  case False
  then have "spec_post sd path body x s = (Inl TypeError, s)"
    by (simp add: spec_post_def and_then_def copy_dict_def)
  with False show thesis by (rule bad_ref)
next
  case valid: True
  define s2 where "s2 = s\<lparr>dicts := dicts s @ [dicts s ! x]\<rparr>"
  have copy: "copy_dict x s = (Inr (length (dicts s)), s2)"
    using valid by (simp add: copy_dict_def s2_def)
  obtain r d' where pp: "prepare_params sd (dicts s ! x) = (r, d')"
    by (cases "prepare_params sd (dicts s ! x)")
  define s3 where "s3 = s\<lparr>dicts := dicts s @ [d'], calls := calls s @ [Prepare_params (dicts s ! x) r]\<rparr>"
  have prep: "call_prepare_params sd (length (dicts s)) s2 = (raised r, s3)"
    by (simp add: call_prepare_params_def s2_def s3_def pp)
  show thesis
  proof (cases r)
    case (Inl e)
    have "spec_post sd path body x s = (Inl (Raised e), s3)"
      by (simp add: spec_post_def and_then_def copy prep Inl raised_def)
    then show thesis
      using valid pp Inl by (intro prepare_raises [of e d' s3]) (simp_all add: s3_def)
  next
    case (Inr hm)
    have prep': "call_prepare_params sd (length (dicts s)) s2 = (Inr hm, s3)"
      by (simp add: prep Inr raised_def)
    show thesis
    proof (cases "network_session (self s)")
      case None
      have "spec_post sd path body x s = (Inl AttributeError, s3)"
        by (simp add: spec_post_def and_then_def copy prep' join_base_url_def s3_def None)
      then show thesis
        using valid pp Inr None by (intro no_session [of hm d' s3]) (simp_all add: s3_def)
    next
      case (Some ns)
      have url: "join_base_url sd path s3 = (Inr (base_url sd ns @ path), s3)"
        by (simp add: join_base_url_def s3_def Some)
      define s4 where "s4 = s3\<lparr>calls := calls s3 @ [Serialize body (serialize sd body)]\<rparr>"
      have ser: "call_serialize sd body s3 = (raised (serialize sd body), s4)"
        by (simp add: call_serialize_def s4_def)
      show thesis
      proof (cases "serialize sd body")
        case (Inl e)
        have "spec_post sd path body x s = (Inl (Raised e), s4)"
          by (simp add: spec_post_def and_then_def copy prep' url ser Inl raised_def)
        then show thesis
          using valid pp Inr Some Inl
          by (intro serialize_raises [of hm d' ns e s4]) (simp_all add: s4_def s3_def)
      next
        case ser_ok: (Inr d)
        have ser': "call_serialize sd body s3 = (Inr d, s4)"
          by (simp add: ser ser_ok raised_def)
        define options :: "('sd, 'a, 'n) FetchOptions" where
          "options = \<lparr>http_method = ''POST'', headers = hm, data = d, content_type = ''application/json'',
             response_format = ''json'', fo_auth = auth (self s), fo_network_session = Some ns\<rparr>"
        obtain fr w' where ft: "fetch sd (base_url sd ns @ path) options (world s) = (fr, w')"
          by (cases "fetch sd (base_url sd ns @ path) options (world s)")
        define s5 where
          "s5 = s4\<lparr>calls := calls s4 @ [Fetch (base_url sd ns @ path) options fr], world := w'\<rparr>"
        have fetch: "call_fetch sd (base_url sd ns @ path)
            \<lparr>http_method = ''POST'', headers = hm, data = d, content_type = ''application/json'',
             response_format = ''json'', fo_auth = auth (self s4),
             fo_network_session = network_session (self s4)\<rparr> s4 = (raised fr, s5)"
          using ft by (simp add: call_fetch_def s5_def s4_def s3_def options_def Some)
        show thesis
        proof (cases fr)
          case (Inl e)
          have "spec_post sd path body x s = (Inl (Raised e), s5)"
            by (simp add: spec_post_def and_then_def copy prep' url ser' fetch Inl raised_def)
          then show thesis
            using valid pp Inr Some ser_ok ft Inl
            by (intro fetch_raises [of hm d' ns d e w' s5])
              (simp_all add: s5_def s4_def s3_def options_def)
        next
          case fetch_ok: (Inr resp)
          define s6 where "s6 = s5\<lparr>calls := calls s5 @
            [Deserialize (response_data resp) (deserialize sd (response_data resp))]\<rparr>"
          have "spec_post sd path body x s = (raised (deserialize sd (response_data resp)), s6)"
            by (simp add: spec_post_def and_then_def copy prep' url ser' fetch fetch_ok raised_def
                call_deserialize_def s6_def)
          then show thesis
            using valid pp Inr Some ser_ok ft fetch_ok
            by (intro fetched [of hm d' ns d resp w' s6])
              (simp_all add: s6_def s5_def s4_def s3_def options_def)
        qed
      qed
    qed
  qed
qed

lemma spec_request_cases:
  fixes s :: "('e, 'w, 'm, 'i, 'sd, 'r, 'a, 'n) state" and extra_headers :: "addr option"
  defines "given \<equiv> (case extra_headers of None \<Rightarrow> [] | Some x \<Rightarrow> dicts s ! x)"
  obtains (bad_ref) x where
    "extra_headers = Some x" "\<not> x < length (dicts s)"
    "spec_request sd path body extra_headers s = (Inl TypeError, s)"
  | (prepare_raises) e d' s' new where
    "case extra_headers of None \<Rightarrow> True | Some x \<Rightarrow> x < length (dicts s)"
    "prepare_params sd given = (Inl e, d')"
    "spec_request sd path body extra_headers s = (Inl (Raised e), s')"
    "self s' = self s" "dicts s' = dicts s @ new" "world s' = world s"
    "calls s' = calls s @ [Prepare_params given (Inl e)]"
  | (no_session) hm d' s' new where
    "case extra_headers of None \<Rightarrow> True | Some x \<Rightarrow> x < length (dicts s)"
    "prepare_params sd given = (Inr hm, d')"
    "network_session (self s) = None"
    "spec_request sd path body extra_headers s = (Inl AttributeError, s')"
    "self s' = self s" "dicts s' = dicts s @ new" "world s' = world s"
    "calls s' = calls s @ [Prepare_params given (Inr hm)]"
  | (serialize_raises) hm d' ns e s' new where
    "case extra_headers of None \<Rightarrow> True | Some x \<Rightarrow> x < length (dicts s)"
    "prepare_params sd given = (Inr hm, d')"
    "network_session (self s) = Some ns"
    "serialize sd body = Inl e"
    "spec_request sd path body extra_headers s = (Inl (Raised e), s')"
    "self s' = self s" "dicts s' = dicts s @ new" "world s' = world s"
    "calls s' = calls s @ [Prepare_params given (Inr hm), Serialize body (Inl e)]"
  | (fetch_raises) hm d' ns d e w' s' new where
    "case extra_headers of None \<Rightarrow> True | Some x \<Rightarrow> x < length (dicts s)"
    "prepare_params sd given = (Inr hm, d')"
    "network_session (self s) = Some ns"
    "serialize sd body = Inr d"
    "fetch sd (base_url sd ns @ path)
       \<lparr>http_method = ''POST'', headers = hm, data = d, content_type = ''application/json'',
        response_format = ''json'', fo_auth = auth (self s), fo_network_session = Some ns\<rparr>
       (world s) = (Inl e, w')"
    "spec_request sd path body extra_headers s = (Inl (Raised e), s')"
    "self s' = self s" "dicts s' = dicts s @ new" "world s' = w'"
    "calls s' = calls s @
       [Prepare_params given (Inr hm), Serialize body (Inr d),
        Fetch (base_url sd ns @ path)
          \<lparr>http_method = ''POST'', headers = hm, data = d, content_type = ''application/json'',
           response_format = ''json'', fo_auth = auth (self s), fo_network_session = Some ns\<rparr>
          (Inl e)]"
  | (fetched) hm d' ns d resp w' s' new where
    "case extra_headers of None \<Rightarrow> True | Some x \<Rightarrow> x < length (dicts s)"
    "prepare_params sd given = (Inr hm, d')"
    "network_session (self s) = Some ns"
    "serialize sd body = Inr d"
    "fetch sd (base_url sd ns @ path)
       \<lparr>http_method = ''POST'', headers = hm, data = d, content_type = ''application/json'',
        response_format = ''json'', fo_auth = auth (self s), fo_network_session = Some ns\<rparr>
       (world s) = (Inr resp, w')"
    "spec_request sd path body extra_headers s = (raised (deserialize sd (response_data resp)), s')"
    "self s' = self s" "dicts s' = dicts s @ new" "world s' = w'"
    "calls s' = calls s @
       [Prepare_params given (Inr hm), Serialize body (Inr d),
        Fetch (base_url sd ns @ path)
          \<lparr>http_method = ''POST'', headers = hm, data = d, content_type = ''application/json'',
           response_format = ''json'', fo_auth = auth (self s), fo_network_session = Some ns\<rparr>
          (Inr resp),
        Deserialize (response_data resp) (deserialize sd (response_data resp))]"
proof (cases extra_headers)
  case None
  define s1 where "s1 = s\<lparr>dicts := dicts s @ [[]]\<rparr>"
  have run: "spec_request sd path body extra_headers s = spec_post sd path body (length (dicts s)) s1"
    by (simp add: spec_request_def None and_then_def new_dict_def s1_def)
  have s1: "self s1 = self s" "dicts s1 = dicts s @ [[]]" "world s1 = world s" "calls s1 = calls s"
    "dicts s1 ! length (dicts s) = given" "length (dicts s) < length (dicts s1)"
    by (simp_all add: s1_def given_def None)
  show thesis
  proof (cases rule: spec_post_cases [of "length (dicts s)" s1 sd path body])
    case bad_ref
    with s1 show ?thesis by simp
  next
    case (prepare_raises e d' s')
    then show ?thesis
      using s1 run None by (intro that(2) [of e d' s' "[[], d']"]) simp_all
  next
    case (no_session hm d' s')
    then show ?thesis
      using s1 run None by (intro that(3) [of hm d' s' "[[], d']"]) simp_all
  next
    case (serialize_raises hm d' ns e s')
    then show ?thesis
      using s1 run None by (intro that(4) [of hm d' ns e s' "[[], d']"]) simp_all
  next
    case (fetch_raises hm d' ns d e w' s')
    then show ?thesis
      using s1 run None by (intro that(5) [of hm d' ns d e w' s' "[[], d']"]) simp_all
  next
    case (fetched hm d' ns d resp w' s')
    then show ?thesis
      using s1 run None by (intro that(6) [of hm d' ns d resp w' s' "[[], d']"]) simp_all
  qed
next
  case (Some x)
  have run: "spec_request sd path body extra_headers s = spec_post sd path body x s"
    by (simp add: spec_request_def Some and_then_def)
  have given: "dicts s ! x = given"
    by (simp add: given_def Some)
  show thesis
  proof (cases rule: spec_post_cases [of x s sd path body])
    case bad_ref
    then show ?thesis
      using Some run by (intro that(1) [of x]) simp_all
  next
    case (prepare_raises e d' s')
    then show ?thesis
      using given run Some by (intro that(2) [of e d' s' "[d']"]) simp_all
  next
    case (no_session hm d' s')
    then show ?thesis
      using given run Some by (intro that(3) [of hm d' s' "[d']"]) simp_all
  next
    case (serialize_raises hm d' ns e s')
    then show ?thesis
      using given run Some by (intro that(4) [of hm d' ns e s' "[d']"]) simp_all
  next
    case (fetch_raises hm d' ns d e w' s')
    then show ?thesis
      using given run Some by (intro that(5) [of hm d' ns d e w' s' "[d']"]) simp_all
  next
    case (fetched hm d' ns d resp w' s')
    then show ?thesis
      using given run Some by (intro that(6) [of hm d' ns d resp w' s' "[d']"]) simp_all
  qed
qed

section \<open>Properties of the request computation\<close>

lemmas run_defs = intelligence_ask_def intelligence_text_gen_def and_then_def new_dict_def
  copy_dict_def join_base_url_def call_prepare_params_def call_serialize_def call_fetch_def
  call_deserialize_def raised_def

lemmas log_defs = new_calls_def fetches_def List.map_filter_simps

lemma request_posts_once:
  fixes s :: "('e, 'w, 'm, 'i, 'sd, 'r, 'a, 'n) state"
  assumes "case extra_headers of None \<Rightarrow> True | Some x \<Rightarrow> x < length (dicts s)"
    and "fst (prepare_params sd (case extra_headers of None \<Rightarrow> [] | Some x \<Rightarrow> dicts s ! x)) = Inr hm"
    and "network_session (self s) = Some ns"
    and "serialize sd body = Inr d"
  shows "fetches (new_calls s (snd (spec_request sd path body extra_headers s))) =
     [(base_url sd ns @ path,
       \<lparr>http_method = ''POST'', headers = hm, data = d, content_type = ''application/json'',
        response_format = ''json'', fo_auth = auth (self s), fo_network_session = Some ns\<rparr>)]"
  using assms
  by (cases rule: spec_request_cases
        [where extra_headers = extra_headers and s = s and sd = sd and path = path and body = body])
     (simp_all add: log_defs)

lemma request_fetch_options:
  fixes s :: "('e, 'w, 'm, 'i, 'sd, 'r, 'a, 'n) state"
  assumes "(u, options) \<in> set (fetches (new_calls s (snd (spec_request sd path body extra_headers s))))"
  shows "http_method options = ''POST'' \<and> content_type options = ''application/json'' \<and>
    response_format options = ''json'' \<and> fo_auth options = auth (self s) \<and>
    fo_network_session options = network_session (self s) \<and>
    fst (prepare_params sd (case extra_headers of None \<Rightarrow> [] | Some x \<Rightarrow> dicts s ! x)) =
      Inr (headers options)"
  using assms
  by (cases rule: spec_request_cases
        [where extra_headers = extra_headers and s = s and sd = sd and path = path and body = body])
     (simp_all add: log_defs)

lemma request_propagates:
  fixes s :: "('e, 'w, 'm, 'i, 'sd, 'r, 'a, 'n) state"
  assumes "c \<in> set (new_calls s (snd (spec_request sd path body extra_headers s)))"
    and "raised_by c = Some e"
  shows "fst (spec_request sd path body extra_headers s) = Inl (Raised e)"
  using assms
  by (cases rule: spec_request_cases
        [where extra_headers = extra_headers and s = s and sd = sd and path = path and body = body])
     (auto simp add: log_defs raised_def split: sum.splits)

lemma request_fetches_once:
  fixes s :: "('e, 'w, 'm, 'i, 'sd, 'r, 'a, 'n) state"
  shows "length (fetches (new_calls s (snd (spec_request sd path body extra_headers s)))) \<le> 1"
  by (cases rule: spec_request_cases
        [where extra_headers = extra_headers and s = s and sd = sd and path = path and body = body])
     (simp_all add: log_defs)

lemma request_result:
  fixes s :: "('e, 'w, 'm, 'i, 'sd, 'r, 'a, 'n) state"
  assumes "Fetch u options (Inr resp) \<in> set (new_calls s (snd (spec_request sd path body extra_headers s)))"
  shows "fst (spec_request sd path body extra_headers s) = raised (deserialize sd (response_data resp))"
  using assms
  by (cases rule: spec_request_cases
        [where extra_headers = extra_headers and s = s and sd = sd and path = path and body = body])
     (simp_all add: log_defs)

lemma request_body:
  fixes s :: "('e, 'w, 'm, 'i, 'sd, 'r, 'a, 'n) state"
  assumes "Serialize b r \<in> set (new_calls s (snd (spec_request sd path body extra_headers s)))"
  shows "b = body"
  using assms
  by (cases rule: spec_request_cases
        [where extra_headers = extra_headers and s = s and sd = sd and path = path and body = body])
     (simp_all add: log_defs)

lemma request_frame:
  fixes s :: "('e, 'w, 'm, 'i, 'sd, 'r, 'a, 'n) state"
  shows "self (snd (spec_request sd path body extra_headers s)) = self s \<and>
    take (length (dicts s)) (dicts (snd (spec_request sd path body extra_headers s))) = dicts s"
  by (cases rule: spec_request_cases
        [where extra_headers = extra_headers and s = s and sd = sd and path = path and body = body])
     (simp_all add: log_defs)

lemma request_reads_base_url:
  fixes s :: "('e, 'w, 'm, 'i, 'sd, 'r, 'a, 'n) state"
  assumes "network_session (self s) = Some ns"
  shows "fst (spec_request sd path body extra_headers s) \<noteq> Inl AttributeError"
  using assms
  by (cases rule: spec_request_cases
        [where extra_headers = extra_headers and s = s and sd = sd and path = path and body = body])
     (auto simp add: raised_def split: sum.splits)

lemma request_serialized:
  fixes s :: "('e, 'w, 'm, 'i, 'sd, 'r, 'a, 'n) state"
  assumes "case extra_headers of None \<Rightarrow> True | Some x \<Rightarrow> x < length (dicts s)"
    and "fst (prepare_params sd (case extra_headers of None \<Rightarrow> [] | Some x \<Rightarrow> dicts s ! x)) = Inr hm"
    and "network_session (self s) = Some ns"
    and "serialize sd body = Inr d"
  shows "serialized (new_calls s (snd (spec_request sd path body extra_headers s))) = [(body, Inr d)]"
  using assms
  by (cases rule: spec_request_cases
        [where extra_headers = extra_headers and s = s and sd = sd and path = path and body = body])
     (simp_all add: log_defs serialized_def)

lemma request_no_fetch:
  fixes s :: "('e, 'w, 'm, 'i, 'sd, 'r, 'a, 'n) state"
  assumes "(case extra_headers of None \<Rightarrow> False | Some x \<Rightarrow> \<not> x < length (dicts s)) \<or>
      isl (fst (prepare_params sd (case extra_headers of None \<Rightarrow> [] | Some x \<Rightarrow> dicts s ! x))) \<or>
      network_session (self s) = None \<or> isl (serialize sd body)"
  shows "fetches (new_calls s (snd (spec_request sd path body extra_headers s))) = []"
  using assms
  by (cases rule: spec_request_cases
        [where extra_headers = extra_headers and s = s and sd = sd and path = path and body = body])
     (auto simp add: log_defs split: option.splits)

lemma request_returns:
  fixes s :: "('e, 'w, 'm, 'i, 'sd, 'r, 'a, 'n) state"
  assumes "case extra_headers of None \<Rightarrow> True | Some x \<Rightarrow> x < length (dicts s)"
    and "fst (prepare_params sd (case extra_headers of None \<Rightarrow> [] | Some x \<Rightarrow> dicts s ! x)) = Inr hm"
    and "network_session (self s) = Some ns"
    and "serialize sd body = Inr d"
    and "fetch sd (base_url sd ns @ path)
       \<lparr>http_method = ''POST'', headers = hm, data = d, content_type = ''application/json'',
        response_format = ''json'', fo_auth = auth (self s), fo_network_session = Some ns\<rparr>
       (world s) = (Inr resp, w')"
  shows "spec_request sd path body extra_headers s =
      (raised (deserialize sd (response_data resp)),
       snd (spec_request sd path body extra_headers s)) \<and>
    world (snd (spec_request sd path body extra_headers s)) = w'"
  using assms
  by (cases rule: spec_request_cases
        [where extra_headers = extra_headers and s = s and sd = sd and path = path and body = body])
     (simp_all add: log_defs)

lemma and_then_returns:
  assumes "fst (and_then m f s) = Inr v"
  obtains x s1 where "m s = (Inr x, s1)" "fst (f x s1) = Inr v"
    "snd (and_then m f s) = snd (f x s1)"
proof (cases "m s")
  case (Pair r s1)
  with assms show thesis
    by (cases r) (auto simp add: and_then_def intro: that)
qed

lemmas box_defs = create_samples_def and_then_def call_get_folder_by_id_def
  call_create_box_folder_def call_folder_upload_def new_box_calls_def

section \<open>The claims about \<^verbatim>\<open>utils/intelligence.py\<close>\<close>

text \<open>
  C1, as amended. For every mode, prompt, items and extra_headers: when extra_headers is
  \<^verbatim>\<open>None\<close> or refers to a dictionary, \<^verbatim>\<open>prepare_params\<close> does not raise, the manager's
  network_session is not \<^verbatim>\<open>None\<close> and \<^verbatim>\<open>serialize\<close> does not raise, \<open>intelligence_ask\<close>
  hands to \<^verbatim>\<open>serialize\<close> exactly the dictionary with the keys \<^verbatim>\<open>mode\<close>, \<^verbatim>\<open>prompt\<close> and
  \<^verbatim>\<open>items\<close> built from the arguments as they are, and calls the SDK's \<^verbatim>\<open>fetch\<close> exactly
  once: with method \<^verbatim>\<open>POST\<close>, with the network session's base URL followed by
  \<^verbatim>\<open>/ai/ask\<close>, and with what \<^verbatim>\<open>serialize\<close> returned as data. When one of the four
  conditions fails, it does not call \<^verbatim>\<open>fetch\<close>. How many HTTP requests a call of \<^verbatim>\<open>fetch\<close>
  sends is the SDK's matter.
\<close>

theorem intelligence_ask_calls_fetch_once:
  fixes s :: "('e, 'w, 'm, 'i, 'sd, 'r, 'a, 'n) state"
  shows
  "((case extra_headers of None \<Rightarrow> True | Some x \<Rightarrow> x < length (dicts s)) \<and>
    fst (prepare_params sd (case extra_headers of None \<Rightarrow> [] | Some x \<Rightarrow> dicts s ! x)) = Inr hm \<and>
    network_session (self s) = Some ns \<and>
    serialize sd [(''mode'', PyMode mode), (''prompt'', PyStr prompt), (''items'', PyItems items)]
      = Inr d \<longrightarrow>
    serialized (new_calls s (snd (intelligence_ask sd mode prompt items extra_headers s))) =
      [([(''mode'', PyMode mode), (''prompt'', PyStr prompt), (''items'', PyItems items)], Inr d)] \<and>
    fetches (new_calls s (snd (intelligence_ask sd mode prompt items extra_headers s))) =
      [(base_url sd ns @ ''/ai/ask'',
        \<lparr>http_method = ''POST'', headers = hm, data = d, content_type = ''application/json'',
         response_format = ''json'', fo_auth = auth (self s), fo_network_session = Some ns\<rparr>)]) \<and>
   ((case extra_headers of None \<Rightarrow> False | Some x \<Rightarrow> \<not> x < length (dicts s)) \<or>
    isl (fst (prepare_params sd (case extra_headers of None \<Rightarrow> [] | Some x \<Rightarrow> dicts s ! x))) \<or>
    network_session (self s) = None \<or>
    isl (serialize sd [(''mode'', PyMode mode), (''prompt'', PyStr prompt), (''items'', PyItems items)])
    \<longrightarrow>
    fetches (new_calls s (snd (intelligence_ask sd mode prompt items extra_headers s))) = [])"
  unfolding intelligence_ask_request
  by (intro conjI impI request_serialized request_posts_once request_no_fetch) simp_all

theorem intelligence_ask_calls_fetch_once_witness:
  "serialized (new_calls demo_state
      (snd (intelligence_ask demo_sdk ''qa'' ''hi'' [''file 1''] (Some 0) demo_state))) =
     [([(''mode'', PyMode ''qa''), (''prompt'', PyStr ''hi''), (''items'', PyItems [''file 1''])],
       Inr [''mode'', ''prompt'', ''items''])] \<and>
   fetches (new_calls demo_state
      (snd (intelligence_ask demo_sdk ''qa'' ''hi'' [''file 1''] (Some 0) demo_state))) =
     [(''https://api.box.com/2.0/ai/ask'',
       \<lparr>http_method = ''POST'', headers = [(''x-trace'', ''1'')],
        data = [''mode'', ''prompt'', ''items''],
        content_type = ''application/json'', response_format = ''json'',
        fo_auth = Some ''token'', fo_network_session = Some ''https://api.box.com/2.0''\<rparr>)] \<and>
   fetches (new_calls demo_state
      (snd (intelligence_ask demo_sdk ''qa'' ''hi'' [''file 1''] (Some 7) demo_state))) = []"
  using intelligence_ask_calls_fetch_once
    [where extra_headers = "Some 0" and s = demo_state and sd = demo_sdk
       and hm = "[(''x-trace'', ''1'')]" and ns = "''https://api.box.com/2.0''"
       and mode = "''qa''" and prompt = "''hi''" and items = "[''file 1'']"
       and d = "[''mode'', ''prompt'', ''items'']"]
    intelligence_ask_calls_fetch_once
    [where extra_headers = "Some 7" and s = demo_state and sd = demo_sdk
       and mode = "''qa''" and prompt = "''hi''" and items = "[''file 1'']"]
  by (simp add: demo_sdk_def demo_state_def List.map_filter_simps)

text \<open>
  C1 as it was stated fails, at six inputs. In the concrete SDK the world counts the HTTP
  requests sent. With a \<^verbatim>\<open>fetch\<close> that retries, one call of \<open>intelligence_ask\<close> sends five
  requests; with a \<^verbatim>\<open>fetch\<close> that fails before it sends, none. And \<open>intelligence_ask\<close> does
  not reach \<^verbatim>\<open>fetch\<close> when the manager's network_session is \<^verbatim>\<open>None\<close>, when extra_headers
  refers to no dictionary, or when \<^verbatim>\<open>prepare_params\<close> or \<^verbatim>\<open>serialize\<close> raises.
\<close>

theorem intelligence_ask_calls_fetch_once_counterexample:
  "world (snd (intelligence_ask
      (demo_sdk\<lparr>fetch := (\<lambda>url options w. (Inr \<lparr>response_data = [''answer'']\<rparr>, w + 5))\<rparr>)
      ''qa'' ''hi'' [''file 1''] (Some 0) demo_state)) = 5 \<and>
   world (snd (intelligence_ask
      (demo_sdk\<lparr>fetch := (\<lambda>url options w. (Inl ''no token'', w))\<rparr>)
      ''qa'' ''hi'' [''file 1''] (Some 0) demo_state)) = 0 \<and>
   fetches (new_calls (demo_state\<lparr>self := \<lparr>auth = Some ''token'', network_session = None\<rparr>\<rparr>)
      (snd (intelligence_ask demo_sdk ''qa'' ''hi'' [''file 1''] (Some 0)
              (demo_state\<lparr>self := \<lparr>auth = Some ''token'', network_session = None\<rparr>\<rparr>)))) = [] \<and>
   fetches (new_calls demo_state
      (snd (intelligence_ask demo_sdk ''qa'' ''hi'' [''file 1''] (Some 7) demo_state))) = [] \<and>
   fetches (new_calls demo_state
      (snd (intelligence_ask (demo_sdk\<lparr>prepare_params := (\<lambda>d. (Inl ''bad header'', d))\<rparr>)
              ''qa'' ''hi'' [''file 1''] (Some 0) demo_state))) = [] \<and>
   fetches (new_calls demo_state
      (snd (intelligence_ask (demo_sdk\<lparr>serialize := (\<lambda>body. Inl ''not serializable'')\<rparr>)
              ''qa'' ''hi'' [''file 1''] (Some 0) demo_state))) = []"
  by (simp add: run_defs log_defs demo_sdk_def demo_state_def)

text \<open>
  C2, as amended. For every prompt, items, dialogue_history and extra_headers: when
  extra_headers is \<^verbatim>\<open>None\<close> or refers to a dictionary, \<^verbatim>\<open>prepare_params\<close> does not raise,
  the manager's network_session is not \<^verbatim>\<open>None\<close> and \<^verbatim>\<open>serialize\<close> does not raise,
  \<open>intelligence_text_gen\<close> hands to \<^verbatim>\<open>serialize\<close> exactly the dictionary with the keys
  \<^verbatim>\<open>prompt\<close>, \<^verbatim>\<open>items\<close> and \<^verbatim>\<open>dialogue_history\<close> built from the arguments as they are, and
  calls the SDK's \<^verbatim>\<open>fetch\<close> exactly once: with method \<^verbatim>\<open>POST\<close>, with the network session's
  base URL followed by \<^verbatim>\<open>/ai/text_gen\<close>, and with what \<^verbatim>\<open>serialize\<close> returned as data. When
  one of the four conditions fails, it does not call \<^verbatim>\<open>fetch\<close>. How many HTTP requests a
  call of \<^verbatim>\<open>fetch\<close> sends, and which keys of the dictionary \<^verbatim>\<open>serialize\<close> keeps, is the
  SDK's matter.
\<close>

theorem intelligence_text_gen_calls_fetch_once:
  fixes s :: "('e, 'w, 'm, 'i, 'sd, 'r, 'a, 'n) state"
  shows
  "((case extra_headers of None \<Rightarrow> True | Some x \<Rightarrow> x < length (dicts s)) \<and>
    fst (prepare_params sd (case extra_headers of None \<Rightarrow> [] | Some x \<Rightarrow> dicts s ! x)) = Inr hm \<and>
    network_session (self s) = Some ns \<and>
    serialize sd
      [(''prompt'', PyStr prompt), (''items'', PyItems items),
       (''dialogue_history'', case dialogue_history of None \<Rightarrow> PyNone | Some h \<Rightarrow> PyItems h)]
      = Inr d \<longrightarrow>
    serialized (new_calls s
        (snd (intelligence_text_gen sd prompt items dialogue_history extra_headers s))) =
      [([(''prompt'', PyStr prompt), (''items'', PyItems items),
         (''dialogue_history'', case dialogue_history of None \<Rightarrow> PyNone | Some h \<Rightarrow> PyItems h)],
        Inr d)] \<and>
    fetches (new_calls s
        (snd (intelligence_text_gen sd prompt items dialogue_history extra_headers s))) =
      [(base_url sd ns @ ''/ai/text_gen'',
        \<lparr>http_method = ''POST'', headers = hm, data = d, content_type = ''application/json'',
         response_format = ''json'', fo_auth = auth (self s), fo_network_session = Some ns\<rparr>)]) \<and>
   ((case extra_headers of None \<Rightarrow> False | Some x \<Rightarrow> \<not> x < length (dicts s)) \<or>
    isl (fst (prepare_params sd (case extra_headers of None \<Rightarrow> [] | Some x \<Rightarrow> dicts s ! x))) \<or>
    network_session (self s) = None \<or>
    isl (serialize sd
      [(''prompt'', PyStr prompt), (''items'', PyItems items),
       (''dialogue_history'', case dialogue_history of None \<Rightarrow> PyNone | Some h \<Rightarrow> PyItems h)])
    \<longrightarrow>
    fetches (new_calls s
        (snd (intelligence_text_gen sd prompt items dialogue_history extra_headers s))) = [])"
  unfolding intelligence_text_gen_request
  by (intro conjI impI request_serialized request_posts_once request_no_fetch) simp_all

theorem intelligence_text_gen_calls_fetch_once_witness:
  "serialized (new_calls demo_state
      (snd (intelligence_text_gen demo_sdk ''hi'' [''file 1''] (Some [''file 0'']) None demo_state))) =
     [([(''prompt'', PyStr ''hi''), (''items'', PyItems [''file 1'']),
        (''dialogue_history'', PyItems [''file 0''])],
       Inr [''prompt'', ''items'', ''dialogue_history''])] \<and>
   fetches (new_calls demo_state
      (snd (intelligence_text_gen demo_sdk ''hi'' [''file 1''] (Some [''file 0'']) None demo_state))) =
     [(''https://api.box.com/2.0/ai/text_gen'',
       \<lparr>http_method = ''POST'', headers = [],
        data = [''prompt'', ''items'', ''dialogue_history''],
        content_type = ''application/json'', response_format = ''json'',
        fo_auth = Some ''token'', fo_network_session = Some ''https://api.box.com/2.0''\<rparr>)] \<and>
   fetches (new_calls demo_state
      (snd (intelligence_text_gen demo_sdk ''hi'' [''file 1''] None (Some 7) demo_state))) = []"
  using intelligence_text_gen_calls_fetch_once
    [where extra_headers = None and s = demo_state and sd = demo_sdk
       and hm = "[]" and ns = "''https://api.box.com/2.0''"
       and prompt = "''hi''" and items = "[''file 1'']" and dialogue_history = "Some [''file 0'']"
       and d = "[''prompt'', ''items'', ''dialogue_history'']"]
    intelligence_text_gen_calls_fetch_once
    [where extra_headers = "Some 7" and s = demo_state and sd = demo_sdk
       and prompt = "''hi''" and items = "[''file 1'']" and dialogue_history = None]
  by (simp add: demo_sdk_def demo_state_def List.map_filter_simps)

text \<open>
  C2 as it was stated fails, at seven inputs. With a \<^verbatim>\<open>fetch\<close> that retries, one call of
  \<open>intelligence_text_gen\<close> sends five requests; with a \<^verbatim>\<open>fetch\<close> that fails before it sends,
  none. With a \<^verbatim>\<open>serialize\<close> that drops the entries whose value is \<^verbatim>\<open>None\<close>, the data of
  the request has no \<^verbatim>\<open>dialogue_history\<close>. And \<open>intelligence_text_gen\<close> does not reach
  \<^verbatim>\<open>fetch\<close> when the manager's network_session is \<^verbatim>\<open>None\<close>, when extra_headers refers to
  no dictionary, or when \<^verbatim>\<open>prepare_params\<close> or \<^verbatim>\<open>serialize\<close> raises.
\<close>

theorem intelligence_text_gen_calls_fetch_once_counterexample:
  "world (snd (intelligence_text_gen
      (demo_sdk\<lparr>fetch := (\<lambda>url options w. (Inr \<lparr>response_data = [''answer'']\<rparr>, w + 5))\<rparr>)
      ''hi'' [''file 1''] None (Some 0) demo_state)) = 5 \<and>
   world (snd (intelligence_text_gen
      (demo_sdk\<lparr>fetch := (\<lambda>url options w. (Inl ''no token'', w))\<rparr>)
      ''hi'' [''file 1''] None (Some 0) demo_state)) = 0 \<and>
   fetches (new_calls demo_state
      (snd (intelligence_text_gen
              (demo_sdk\<lparr>serialize :=
                 (\<lambda>body. Inr (map fst (filter (\<lambda>(k, v). v \<noteq> PyNone) body)))\<rparr>)
              ''hi'' [''file 1''] None (Some 0) demo_state))) =
     [(''https://api.box.com/2.0/ai/text_gen'',
       \<lparr>http_method = ''POST'', headers = [(''x-trace'', ''1'')], data = [''prompt'', ''items''],
        content_type = ''application/json'', response_format = ''json'',
        fo_auth = Some ''token'', fo_network_session = Some ''https://api.box.com/2.0''\<rparr>)] \<and>
   fetches (new_calls (demo_state\<lparr>self := \<lparr>auth = Some ''token'', network_session = None\<rparr>\<rparr>)
      (snd (intelligence_text_gen demo_sdk ''hi'' [''file 1''] None (Some 0)
              (demo_state\<lparr>self := \<lparr>auth = Some ''token'', network_session = None\<rparr>\<rparr>)))) = [] \<and>
   fetches (new_calls demo_state
      (snd (intelligence_text_gen demo_sdk ''hi'' [''file 1''] None (Some 7) demo_state))) = [] \<and>
   fetches (new_calls demo_state
      (snd (intelligence_text_gen (demo_sdk\<lparr>prepare_params := (\<lambda>d. (Inl ''bad header'', d))\<rparr>)
              ''hi'' [''file 1''] None (Some 0) demo_state))) = [] \<and>
   fetches (new_calls demo_state
      (snd (intelligence_text_gen (demo_sdk\<lparr>serialize := (\<lambda>body. Inl ''not serializable'')\<rparr>)
              ''hi'' [''file 1''] None (Some 0) demo_state))) = []"
  by (simp add: run_defs log_defs demo_sdk_def demo_state_def)

text \<open>
  C3. On every input on which the call of \<^verbatim>\<open>fetch\<close> succeeds, that is, the steps before it
  do not raise and the SDK's \<^verbatim>\<open>fetch\<close>, called with the method's URL and options in the
  world of the call, returns a response, \<open>intelligence_ask\<close> and \<open>intelligence_text_gen\<close>
  each return exactly what \<^verbatim>\<open>deserialize\<close> makes of that response's data: its value, or the
  exception it raises.
\<close>

theorem response_deserialized:
  fixes s :: "('e, 'w, 'm, 'i, 'sd, 'r, 'a, 'n) state"
  assumes "case extra_headers of None \<Rightarrow> True | Some x \<Rightarrow> x < length (dicts s)"
    and "fst (prepare_params sd (case extra_headers of None \<Rightarrow> [] | Some x \<Rightarrow> dicts s ! x)) = Inr hm"
    and "network_session (self s) = Some ns"
  shows
  "(serialize sd [(''mode'', PyMode mode), (''prompt'', PyStr prompt), (''items'', PyItems items)]
      = Inr d \<and>
    fetch sd (base_url sd ns @ ''/ai/ask'')
      \<lparr>http_method = ''POST'', headers = hm, data = d, content_type = ''application/json'',
       response_format = ''json'', fo_auth = auth (self s), fo_network_session = Some ns\<rparr>
      (world s) = (Inr resp, w) \<longrightarrow>
    fst (intelligence_ask sd mode prompt items extra_headers s) =
      raised (deserialize sd (response_data resp))) \<and>
   (serialize sd
      [(''prompt'', PyStr prompt), (''items'', PyItems items),
       (''dialogue_history'', case dialogue_history of None \<Rightarrow> PyNone | Some h \<Rightarrow> PyItems h)]
      = Inr d' \<and>
    fetch sd (base_url sd ns @ ''/ai/text_gen'')
      \<lparr>http_method = ''POST'', headers = hm, data = d', content_type = ''application/json'',
       response_format = ''json'', fo_auth = auth (self s), fo_network_session = Some ns\<rparr>
      (world s) = (Inr resp', w') \<longrightarrow>
    fst (intelligence_text_gen sd prompt items dialogue_history extra_headers s) =
      raised (deserialize sd (response_data resp')))"
proof (intro conjI impI)
  assume "serialize sd [(''mode'', PyMode mode), (''prompt'', PyStr prompt), (''items'', PyItems items)]
      = Inr d \<and>
    fetch sd (base_url sd ns @ ''/ai/ask'')
      \<lparr>http_method = ''POST'', headers = hm, data = d, content_type = ''application/json'',
       response_format = ''json'', fo_auth = auth (self s), fo_network_session = Some ns\<rparr>
      (world s) = (Inr resp, w)"
  with assms show "fst (intelligence_ask sd mode prompt items extra_headers s) =
      raised (deserialize sd (response_data resp))"
    unfolding intelligence_ask_request
    by (metis request_returns fst_conv)
next
  assume "serialize sd
      [(''prompt'', PyStr prompt), (''items'', PyItems items),
       (''dialogue_history'', case dialogue_history of None \<Rightarrow> PyNone | Some h \<Rightarrow> PyItems h)]
      = Inr d' \<and>
    fetch sd (base_url sd ns @ ''/ai/text_gen'')
      \<lparr>http_method = ''POST'', headers = hm, data = d', content_type = ''application/json'',
       response_format = ''json'', fo_auth = auth (self s), fo_network_session = Some ns\<rparr>
      (world s) = (Inr resp', w')"
  with assms show "fst (intelligence_text_gen sd prompt items dialogue_history extra_headers s) =
      raised (deserialize sd (response_data resp'))"
    unfolding intelligence_text_gen_request
    by (metis request_returns fst_conv)
qed

theorem response_deserialized_witness:
  "fetch (demo_sdk\<lparr>fetch := (\<lambda>url options w. (Inr \<lparr>response_data = data options\<rparr>, Suc w))\<rparr>)
      ''https://api.box.com/2.0/ai/text_gen''
      \<lparr>http_method = ''POST'', headers = [(''x-trace'', ''1'')],
       data = [''prompt'', ''items'', ''dialogue_history''],
       content_type = ''application/json'', response_format = ''json'',
       fo_auth = Some ''token'', fo_network_session = Some ''https://api.box.com/2.0''\<rparr> 0 =
     (Inr \<lparr>response_data = [''prompt'', ''items'', ''dialogue_history'']\<rparr>, 1) \<and>
   fst (intelligence_ask
          (demo_sdk\<lparr>fetch := (\<lambda>url options w. (Inr \<lparr>response_data = data options\<rparr>, Suc w))\<rparr>)
          ''qa'' ''hi'' [''file 1''] (Some 0) demo_state) = Inr ''modepromptitems'' \<and>
   fst (intelligence_text_gen
          (demo_sdk\<lparr>fetch := (\<lambda>url options w. (Inr \<lparr>response_data = data options\<rparr>, Suc w))\<rparr>)
          ''hi'' [''file 1''] None (Some 0) demo_state) = Inr ''promptitemsdialogue_history''"
  using response_deserialized
    [where s = demo_state
       and sd = "demo_sdk\<lparr>fetch := (\<lambda>url options w. (Inr \<lparr>response_data = data options\<rparr>, Suc w))\<rparr>"
       and mode = "''qa''" and prompt = "''hi''"
       and items = "[''file 1'']" and extra_headers = "Some 0" and dialogue_history = None
       and hm = "[(''x-trace'', ''1'')]" and ns = "''https://api.box.com/2.0''"
       and d = "[''mode'', ''prompt'', ''items'']"
       and resp = "\<lparr>response_data = [''mode'', ''prompt'', ''items'']\<rparr>" and w = 1
       and d' = "[''prompt'', ''items'', ''dialogue_history'']"
       and resp' = "\<lparr>response_data = [''prompt'', ''items'', ''dialogue_history'']\<rparr>" and w' = 1]
  by (simp add: raised_def demo_sdk_def demo_state_def List.map_filter_simps)

text \<open>
  C4. Every \<^verbatim>\<open>FetchOptions\<close> that \<open>intelligence_ask\<close> or \<open>intelligence_text_gen\<close> passes to
  \<^verbatim>\<open>fetch\<close> carries the manager's stored authentication as auth and the manager's stored
  network session as network_session, with method \<^verbatim>\<open>POST\<close>, content type
  \<^verbatim>\<open>application/json\<close> and response format \<^verbatim>\<open>json\<close>; and each method, when the steps before
  its call of \<^verbatim>\<open>fetch\<close> do not raise, passes exactly one such \<^verbatim>\<open>FetchOptions\<close>.
\<close>

theorem fetch_options_carry_manager:
  fixes s :: "('e, 'w, 'm, 'i, 'sd, 'r, 'a, 'n) state"
  shows
  "(\<forall>(u, options) \<in>
       set (fetches (new_calls s (snd (intelligence_ask sd mode prompt items extra_headers s)))) \<union>
       set (fetches (new_calls s
             (snd (intelligence_text_gen sd prompt items dialogue_history extra_headers s)))).
      fo_auth options = auth (self s) \<and> fo_network_session options = network_session (self s) \<and>
      http_method options = ''POST'' \<and> content_type options = ''application/json'' \<and>
      response_format options = ''json'') \<and>
   ((case extra_headers of None \<Rightarrow> True | Some x \<Rightarrow> x < length (dicts s)) \<and>
    fst (prepare_params sd (case extra_headers of None \<Rightarrow> [] | Some x \<Rightarrow> dicts s ! x)) = Inr hm \<and>
    network_session (self s) = Some ns \<and>
    serialize sd [(''mode'', PyMode mode), (''prompt'', PyStr prompt), (''items'', PyItems items)]
      = Inr d \<longrightarrow>
    map snd (fetches (new_calls s (snd (intelligence_ask sd mode prompt items extra_headers s)))) =
      [\<lparr>http_method = ''POST'', headers = hm, data = d, content_type = ''application/json'',
        response_format = ''json'', fo_auth = auth (self s),
        fo_network_session = network_session (self s)\<rparr>]) \<and>
   ((case extra_headers of None \<Rightarrow> True | Some x \<Rightarrow> x < length (dicts s)) \<and>
    fst (prepare_params sd (case extra_headers of None \<Rightarrow> [] | Some x \<Rightarrow> dicts s ! x)) = Inr hm \<and>
    network_session (self s) = Some ns \<and>
    serialize sd
      [(''prompt'', PyStr prompt), (''items'', PyItems items),
       (''dialogue_history'', case dialogue_history of None \<Rightarrow> PyNone | Some h \<Rightarrow> PyItems h)]
      = Inr d' \<longrightarrow>
    map snd (fetches (new_calls s
        (snd (intelligence_text_gen sd prompt items dialogue_history extra_headers s)))) =
      [\<lparr>http_method = ''POST'', headers = hm, data = d', content_type = ''application/json'',
        response_format = ''json'', fo_auth = auth (self s),
        fo_network_session = network_session (self s)\<rparr>])"
proof -
  have every: "fo_auth options = auth (self s) \<and>
      fo_network_session options = network_session (self s) \<and>
      http_method options = ''POST'' \<and> content_type options = ''application/json'' \<and>
      response_format options = ''json''"
    if "(u, options) \<in> set (fetches (new_calls s (snd (spec_request sd path body extra_headers s))))"
    for u path and options :: "('sd, 'a, 'n) FetchOptions" and body :: "('m, 'i) pydict"
    using request_fetch_options [OF that] by simp
  have one: "map snd (fetches (new_calls s (snd (spec_request sd path body extra_headers s)))) =
      [\<lparr>http_method = ''POST'', headers = hm, data = dd, content_type = ''application/json'',
        response_format = ''json'', fo_auth = auth (self s),
        fo_network_session = network_session (self s)\<rparr>]"
    if "case extra_headers of None \<Rightarrow> True | Some x \<Rightarrow> x < length (dicts s)"
      and "fst (prepare_params sd (case extra_headers of None \<Rightarrow> [] | Some x \<Rightarrow> dicts s ! x)) = Inr hm"
      and "network_session (self s) = Some ns"
      and "serialize sd body = Inr dd"
    for path dd and body :: "('m, 'i) pydict"
    using request_posts_once [OF that, of path] that(3) by simp
  show ?thesis
    unfolding intelligence_ask_request intelligence_text_gen_request
    using every one by (auto simp del: map_eq_Cons_conv)
qed

theorem fetch_options_carry_manager_witness:
  "map snd (fetches (new_calls demo_state
      (snd (intelligence_ask demo_sdk ''qa'' ''hi'' [''file 1''] (Some 0) demo_state)))) =
     [\<lparr>http_method = ''POST'', headers = [(''x-trace'', ''1'')],
       data = [''mode'', ''prompt'', ''items''],
       content_type = ''application/json'', response_format = ''json'',
       fo_auth = auth (self demo_state), fo_network_session = network_session (self demo_state)\<rparr>] \<and>
   map snd (fetches (new_calls demo_state
      (snd (intelligence_text_gen demo_sdk ''hi'' [''file 1''] None (Some 0) demo_state)))) =
     [\<lparr>http_method = ''POST'', headers = [(''x-trace'', ''1'')],
       data = [''prompt'', ''items'', ''dialogue_history''],
       content_type = ''application/json'', response_format = ''json'',
       fo_auth = auth (self demo_state), fo_network_session = network_session (self demo_state)\<rparr>] \<and>
   auth (self demo_state) = Some ''token'' \<and>
   network_session (self demo_state) = Some ''https://api.box.com/2.0''"
  using fetch_options_carry_manager
    [where s = demo_state and sd = demo_sdk and mode = "''qa''" and prompt = "''hi''"
       and items = "[''file 1'']" and extra_headers = "Some 0" and dialogue_history = None
       and hm = "[(''x-trace'', ''1'')]" and ns = "''https://api.box.com/2.0''"
       and d = "[''mode'', ''prompt'', ''items'']"
       and d' = "[''prompt'', ''items'', ''dialogue_history'']"]
  by (simp add: demo_sdk_def demo_state_def List.map_filter_simps)

text \<open>
  C5. Neither method catches, changes or recovers from an error: whenever an SDK call made
  by \<open>intelligence_ask\<close> or \<open>intelligence_text_gen\<close> (preparing the headers, serialization, the
  fetch, deserialization) raises, the method ends with that very exception; and a run calls
  \<^verbatim>\<open>fetch\<close> at most once, also when it fails.
\<close>

theorem errors_propagate:
  fixes s :: "('e, 'w, 'm, 'i, 'sd, 'r, 'a, 'n) state"
  shows
  "(\<forall>c \<in> set (new_calls s (snd (intelligence_ask sd mode prompt items extra_headers s))).
      \<forall>e. raised_by c = Some e \<longrightarrow>
        fst (intelligence_ask sd mode prompt items extra_headers s) = Inl (Raised e)) \<and>
   length (fetches (new_calls s (snd (intelligence_ask sd mode prompt items extra_headers s)))) \<le> 1 \<and>
   (\<forall>c \<in> set (new_calls s
        (snd (intelligence_text_gen sd prompt items dialogue_history extra_headers s))).
      \<forall>e. raised_by c = Some e \<longrightarrow>
        fst (intelligence_text_gen sd prompt items dialogue_history extra_headers s) =
          Inl (Raised e)) \<and>
   length (fetches (new_calls s
      (snd (intelligence_text_gen sd prompt items dialogue_history extra_headers s)))) \<le> 1"
  unfolding intelligence_ask_request intelligence_text_gen_request
  by (blast intro: request_propagates request_fetches_once)

theorem errors_propagate_witness:
  "raised_by
     (Fetch ''https://api.box.com/2.0/ai/ask''
        \<lparr>http_method = ''POST'', headers = [(''x-trace'', ''1'')],
         data = [''mode'', ''prompt'', ''items''],
         content_type = ''application/json'', response_format = ''json'',
         fo_auth = Some ''token'', fo_network_session = Some ''https://api.box.com/2.0''\<rparr>
        (Inl ''503'') ::
      (string, string, string, string list, string, string, string) sdk_call) = Some ''503'' \<and>
   fst (intelligence_ask
          (demo_sdk\<lparr>fetch := (\<lambda>url options w. (Inl ''503'', Suc w))\<rparr>)
          ''qa'' ''hi'' [''file 1''] (Some 0) demo_state) = Inl (Raised ''503'') \<and>
   fetches (new_calls demo_state (snd (intelligence_ask
          (demo_sdk\<lparr>fetch := (\<lambda>url options w. (Inl ''503'', Suc w))\<rparr>)
          ''qa'' ''hi'' [''file 1''] (Some 0) demo_state))) =
     [(''https://api.box.com/2.0/ai/ask'',
        \<lparr>http_method = ''POST'', headers = [(''x-trace'', ''1'')],
         data = [''mode'', ''prompt'', ''items''],
         content_type = ''application/json'', response_format = ''json'',
         fo_auth = Some ''token'', fo_network_session = Some ''https://api.box.com/2.0''\<rparr>)]"
  using errors_propagate
    [where s = demo_state and sd = "demo_sdk\<lparr>fetch := (\<lambda>url options w. (Inl ''503'', Suc w))\<rparr>"
       and mode = "''qa''" and prompt = "''hi''" and items = "[''file 1'']"
       and extra_headers = "Some 0" and dialogue_history = None]
  by (simp add: run_defs log_defs demo_sdk_def demo_state_def)

text \<open>
  C6. \<open>intelligence_ask\<close> and \<open>intelligence_text_gen\<close> are the same computation but for the
  path and the request dictionary. Run from the same state with the same extra_headers,
  their calls of \<^verbatim>\<open>fetch\<close> have the same headers, method, content type, response format,
  auth and network session, and on the same response they return the same result.
\<close>

theorem methods_differ_in_path_and_body:
  fixes s :: "('e, 'w, 'm, 'i, 'sd, 'r, 'a, 'n) state"
  shows
  "intelligence_ask sd mode prompt items extra_headers s =
     spec_request sd ''/ai/ask''
       [(''mode'', PyMode mode), (''prompt'', PyStr prompt), (''items'', PyItems items)]
       extra_headers s \<and>
   intelligence_text_gen sd prompt' items' dialogue_history extra_headers s =
     spec_request sd ''/ai/text_gen''
       [(''prompt'', PyStr prompt'), (''items'', PyItems items'),
        (''dialogue_history'', case dialogue_history of None \<Rightarrow> PyNone | Some h \<Rightarrow> PyItems h)]
       extra_headers s \<and>
   (\<forall>(u1, o1) \<in> set (fetches (new_calls s
        (snd (intelligence_ask sd mode prompt items extra_headers s)))).
    \<forall>(u2, o2) \<in> set (fetches (new_calls s
        (snd (intelligence_text_gen sd prompt' items' dialogue_history extra_headers s)))).
      headers o1 = headers o2 \<and> http_method o1 = http_method o2 \<and> content_type o1 = content_type o2 \<and>
      response_format o1 = response_format o2 \<and> fo_auth o1 = fo_auth o2 \<and>
      fo_network_session o1 = fo_network_session o2) \<and>
   (\<forall>u1 o1 u2 o2 resp.
      Fetch u1 o1 (Inr resp)
        \<in> set (new_calls s (snd (intelligence_ask sd mode prompt items extra_headers s))) \<and>
      Fetch u2 o2 (Inr resp)
        \<in> set (new_calls s
              (snd (intelligence_text_gen sd prompt' items' dialogue_history extra_headers s))) \<longrightarrow>
      fst (intelligence_ask sd mode prompt items extra_headers s) =
        fst (intelligence_text_gen sd prompt' items' dialogue_history extra_headers s))"
proof -
  have same: "headers o1 = headers o2 \<and> http_method o1 = http_method o2 \<and>
      content_type o1 = content_type o2 \<and> response_format o1 = response_format o2 \<and>
      fo_auth o1 = fo_auth o2 \<and> fo_network_session o1 = fo_network_session o2"
    if "(u1, o1) \<in> set (fetches (new_calls s (snd (spec_request sd p1 b1 extra_headers s))))"
      and "(u2, o2) \<in> set (fetches (new_calls s (snd (spec_request sd p2 b2 extra_headers s))))"
    for u1 u2 p1 p2 and o1 o2 :: "('sd, 'a, 'n) FetchOptions" and b1 b2 :: "('m, 'i) pydict"
    using request_fetch_options [OF that(1)] request_fetch_options [OF that(2)] by simp
  have result: "fst (spec_request sd p1 b1 extra_headers s) = fst (spec_request sd p2 b2 extra_headers s)"
    if "Fetch u1 o1 (Inr resp) \<in> set (new_calls s (snd (spec_request sd p1 b1 extra_headers s)))"
      and "Fetch u2 o2 (Inr resp) \<in> set (new_calls s (snd (spec_request sd p2 b2 extra_headers s)))"
    for u1 u2 p1 p2 o1 o2 resp and b1 b2 :: "('m, 'i) pydict"
    using request_result [OF that(1)] request_result [OF that(2)] by simp
  show ?thesis
    unfolding intelligence_ask_request intelligence_text_gen_request
    using same result by blast
qed

theorem methods_differ_in_path_and_body_witness:
  "fetches (new_calls demo_state
      (snd (intelligence_ask demo_sdk ''qa'' ''hi'' [''file 1''] (Some 0) demo_state))) =
     [(''https://api.box.com/2.0/ai/ask'',
       \<lparr>http_method = ''POST'', headers = [(''x-trace'', ''1'')], data = [''mode'', ''prompt'', ''items''],
        content_type = ''application/json'', response_format = ''json'',
        fo_auth = Some ''token'', fo_network_session = Some ''https://api.box.com/2.0''\<rparr>)] \<and>
   fetches (new_calls demo_state
      (snd (intelligence_text_gen demo_sdk ''hello'' [] None (Some 0) demo_state))) =
     [(''https://api.box.com/2.0/ai/text_gen'',
       \<lparr>http_method = ''POST'', headers = [(''x-trace'', ''1'')],
        data = [''prompt'', ''items'', ''dialogue_history''],
        content_type = ''application/json'', response_format = ''json'',
        fo_auth = Some ''token'', fo_network_session = Some ''https://api.box.com/2.0''\<rparr>)] \<and>
   fst (intelligence_ask demo_sdk ''qa'' ''hi'' [''file 1''] (Some 0) demo_state) =
     fst (intelligence_text_gen demo_sdk ''hello'' [] None (Some 0) demo_state)"
  using methods_differ_in_path_and_body
    [where s = demo_state and sd = demo_sdk and mode = "''qa''" and prompt = "''hi''"
       and items = "[''file 1'']" and extra_headers = "Some 0" and dialogue_history = None
       and prompt' = "''hello''" and items' = "[]"]
  by (simp add: run_defs log_defs spec_request_def spec_post_def demo_sdk_def demo_state_def)

text \<open>
  C8. When \<open>intelligence_text_gen\<close> is called with dialogue_history \<^verbatim>\<open>None\<close>, the dictionary
  it passes to \<^verbatim>\<open>serialize\<close> still has the key \<^verbatim>\<open>dialogue_history\<close>, mapped to \<^verbatim>\<open>None\<close>.
\<close>

theorem dialogue_history_none_kept:
  fixes s :: "('e, 'w, 'm, 'i, 'sd, 'r, 'a, 'n) state"
  assumes "Serialize b r
      \<in> set (new_calls s (snd (intelligence_text_gen sd prompt items None extra_headers s)))"
  shows "b = [(''prompt'', PyStr prompt), (''items'', PyItems items), (''dialogue_history'', PyNone)] \<and>
    map_of b ''dialogue_history'' = Some PyNone"
proof -
  from assms have "b = [(''prompt'', PyStr prompt), (''items'', PyItems items),
      (''dialogue_history'', case None :: 'i list option of None \<Rightarrow> PyNone | Some h \<Rightarrow> PyItems h)]"
    unfolding intelligence_text_gen_request by (rule request_body)
  then show ?thesis by simp
qed

theorem dialogue_history_none_kept_witness:
  "Serialize [(''prompt'', PyStr ''hi''), (''items'', PyItems [''file 1'']),
              (''dialogue_history'', PyNone)]
     (Inr [''prompt'', ''items'', ''dialogue_history''])
     \<in> set (new_calls demo_state
            (snd (intelligence_text_gen demo_sdk ''hi'' [''file 1''] None None demo_state))) \<and>
   map_of [(''prompt'', PyStr ''hi''), (''items'', PyItems [''file 1'']),
           (''dialogue_history'', PyNone :: (string, string) pyval)] ''dialogue_history''
     = Some PyNone"
  using dialogue_history_none_kept
    [where s = demo_state and sd = demo_sdk and prompt = "''hi''" and items = "[''file 1'']"
       and extra_headers = None and r = "Inr [''prompt'', ''items'', ''dialogue_history'']"
       and b = "[(''prompt'', PyStr ''hi''), (''items'', PyItems [''file 1'']),
                 (''dialogue_history'', PyNone)]"]
  by (simp add: run_defs log_defs demo_sdk_def demo_state_def)

text \<open>
  C9. When \<^verbatim>\<open>IntelligenceManager.__init__\<close> returns, the manager's network_session is not
  \<^verbatim>\<open>None\<close>: it is the argument or, when the argument is \<^verbatim>\<open>None\<close>, the session that
  \<^verbatim>\<open>NetworkSession()\<close> constructed. So neither request method fails reading the base URL
  from it. The auth field is the argument, \<^verbatim>\<open>None\<close> included.
\<close>

theorem init_network_session:
  fixes s :: "('e, 'w, 'm, 'i, 'sd, 'r, 'a, 'n) state"
  assumes "IntelligenceManager_init sd auth_arg network_session_arg = Inr m"
  shows "(\<exists>ns. network_session m = Some ns \<and>
       (case network_session_arg of None \<Rightarrow> NetworkSession sd = Inr ns | Some ns' \<Rightarrow> ns = ns')) \<and>
    auth m = auth_arg \<and>
    (self s = m \<longrightarrow>
       fst (intelligence_ask sd mode prompt items extra_headers s) \<noteq> Inl AttributeError \<and>
       fst (intelligence_text_gen sd prompt items dialogue_history extra_headers s)
         \<noteq> Inl AttributeError)"
proof -
  from assms have m: "(\<exists>ns. network_session m = Some ns \<and>
       (case network_session_arg of None \<Rightarrow> NetworkSession sd = Inr ns | Some ns' \<Rightarrow> ns = ns'))"
    and a: "auth m = auth_arg"
    by (auto simp add: IntelligenceManager_init_def split: option.splits sum.splits)
  from m obtain ns where "network_session m = Some ns" by blast
  then have "fst (intelligence_ask sd mode prompt items extra_headers s) \<noteq> Inl AttributeError \<and>
       fst (intelligence_text_gen sd prompt items dialogue_history extra_headers s)
         \<noteq> Inl AttributeError" if "self s = m"
    unfolding intelligence_ask_request intelligence_text_gen_request
    using that by (simp add: request_reads_base_url)
  with m a show ?thesis by blast
qed

theorem init_network_session_witness:
  "IntelligenceManager_init demo_sdk None None =
     Inr \<lparr>auth = None, network_session = Some ''https://api.box.com/2.0''\<rparr> \<and>
   fst (intelligence_ask demo_sdk ''qa'' ''hi'' [''file 1''] None
          (demo_state\<lparr>self := \<lparr>auth = None, network_session = Some ''https://api.box.com/2.0''\<rparr>\<rparr>))
     \<noteq> Inl AttributeError"
  using init_network_session
    [where sd = demo_sdk and auth_arg = None and network_session_arg = None
       and m = "\<lparr>auth = None, network_session = Some ''https://api.box.com/2.0''\<rparr>"
       and s = "demo_state\<lparr>self := \<lparr>auth = None,
                  network_session = Some ''https://api.box.com/2.0''\<rparr>\<rparr>"
       and mode = "''qa''" and prompt = "''hi''" and items = "[''file 1'']"
       and extra_headers = None and dialogue_history = None]
  by (simp add: IntelligenceManager_init_def demo_sdk_def demo_state_def)

text \<open>
  C10. Neither method changes the manager or the caller's dictionary: after a call of
  \<open>intelligence_ask\<close> or \<open>intelligence_text_gen\<close> the manager's auth and network_session are
  what they were, every dictionary that existed before the call has the contents it had, and
  so has the dictionary given as extra_headers, whatever the SDK does to the dictionary it
  is handed.
\<close>

theorem methods_frame:
  fixes s :: "('e, 'w, 'm, 'i, 'sd, 'r, 'a, 'n) state"
  shows
  "self (snd (intelligence_ask sd mode prompt items extra_headers s)) = self s \<and>
   take (length (dicts s)) (dicts (snd (intelligence_ask sd mode prompt items extra_headers s)))
     = dicts s \<and>
   (\<forall>x. extra_headers = Some x \<and> x < length (dicts s) \<longrightarrow>
      dicts (snd (intelligence_ask sd mode prompt items extra_headers s)) ! x = dicts s ! x) \<and>
   self (snd (intelligence_text_gen sd prompt items dialogue_history extra_headers s)) = self s \<and>
   take (length (dicts s))
     (dicts (snd (intelligence_text_gen sd prompt items dialogue_history extra_headers s)))
     = dicts s \<and>
   (\<forall>x. extra_headers = Some x \<and> x < length (dicts s) \<longrightarrow>
      dicts (snd (intelligence_text_gen sd prompt items dialogue_history extra_headers s)) ! x
        = dicts s ! x)"
proof -
  have kept: "ds' ! x = ds ! x" if "take (length ds) ds' = ds" and "x < length ds"
    for ds ds' :: "hdict list" and x
    using that by (metis nth_take)
  show ?thesis
    unfolding intelligence_ask_request intelligence_text_gen_request
    using request_frame kept by blast
qed

theorem methods_frame_witness:
  "prepare_params demo_sdk [(''x-trace'', Some ''1''), (''x-skip'', None)] =
     (Inr [(''x-trace'', ''1'')], []) \<and>
   dicts (snd (intelligence_ask demo_sdk ''qa'' ''hi'' [''file 1''] (Some 0) demo_state)) ! 0 =
     [(''x-trace'', Some ''1''), (''x-skip'', None)] \<and>
   self (snd (intelligence_ask demo_sdk ''qa'' ''hi'' [''file 1''] (Some 0) demo_state)) =
     \<lparr>auth = Some ''token'', network_session = Some ''https://api.box.com/2.0''\<rparr>"
  using methods_frame
    [where s = demo_state and sd = demo_sdk and mode = "''qa''" and prompt = "''hi''"
       and items = "[''file 1'']" and extra_headers = "Some 0" and dialogue_history = None]
  by (simp add: demo_sdk_def demo_state_def List.map_filter_simps)

section \<open>The claim about \<^verbatim>\<open>workshops/sign/create_samples.py\<close>\<close>

text \<open>
  C7, as amended. For every client for which no call raises, so that \<open>create_samples\<close>
  returns, \<open>create_samples\<close> performs, in this order: the lookup of the folder with ID
  \<^verbatim>\<open>0\<close>, the creation of a folder \<^verbatim>\<open>workshops\<close> under it, of a folder \<^verbatim>\<open>sign\<close> under
  \<^verbatim>\<open>workshops\<close>, of a folder \<^verbatim>\<open>signed docs\<close> and then a folder \<^verbatim>\<open>docs\<close> under \<^verbatim>\<open>sign\<close>,
  and the upload of the local directory \<^verbatim>\<open>workshops/sign/content_samples/\<close> into \<^verbatim>\<open>docs\<close>;
  \<open>create_samples\<close> itself makes no other call.
\<close>

theorem create_samples_calls:
  assumes "fst (create_samples b client s) = Inr ()"
  shows "\<exists>root wks_folder module_folder signed_folder docs_folder uploaded w1 w2 w3 w4 w5 w6.
     get_folder_by_id b client ''0'' (box_world s) = (Inr root, w1) \<and>
     create_box_folder b client ''workshops'' root w1 = (Inr wks_folder, w2) \<and>
     create_box_folder b client ''sign'' wks_folder w2 = (Inr module_folder, w3) \<and>
     create_box_folder b client ''signed docs'' module_folder w3 = (Inr signed_folder, w4) \<and>
     create_box_folder b client ''docs'' module_folder w4 = (Inr docs_folder, w5) \<and>
     folder_upload b client docs_folder ''workshops/sign/content_samples/'' w5 = (Inr uploaded, w6) \<and>
     new_box_calls s (snd (create_samples b client s)) =
       [Get_folder_by_id client ''0'',
        Create_box_folder client ''workshops'' root,
        Create_box_folder client ''sign'' wks_folder,
        Create_box_folder client ''signed docs'' module_folder,
        Create_box_folder client ''docs'' module_folder,
        Folder_upload client docs_folder ''workshops/sign/content_samples/'']"
  using assms unfolding create_samples_def
  apply (elim and_then_returns)
  apply (clarsimp simp add: and_then_def call_get_folder_by_id_def call_create_box_folder_def
      call_folder_upload_def new_box_calls_def split: prod.splits)
  done

theorem create_samples_calls_witness:
  "fst (create_samples demo_box ''client'' demo_box_state) = Inr () \<and>
   new_box_calls demo_box_state (snd (create_samples demo_box ''client'' demo_box_state)) =
     [Get_folder_by_id ''client'' ''0'',
      Create_box_folder ''client'' ''workshops'' ''0'',
      Create_box_folder ''client'' ''sign'' ''0/workshops'',
      Create_box_folder ''client'' ''signed docs'' ''0/workshops/sign'',
      Create_box_folder ''client'' ''docs'' ''0/workshops/sign'',
      Folder_upload ''client'' ''0/workshops/sign/docs'' ''workshops/sign/content_samples/'']"
  using create_samples_calls [where b = demo_box and client = "''client''" and s = demo_box_state]
  by (simp add: box_defs demo_box_def demo_box_state_def)

text \<open>
  C7 as it was stated fails for a client whose folder lookup raises: \<open>create_samples\<close> then
  makes that one call, creates no folder and uploads nothing.
\<close>

theorem create_samples_calls_counterexample:
  "new_box_calls demo_box_state
     (snd (create_samples
        (demo_box\<lparr>get_folder_by_id := (\<lambda>client folder_id w. (Inl ''unauthorized'', w))\<rparr>)
        ''client'' demo_box_state)) =
     [Get_folder_by_id ''client'' ''0'']"
  by (simp add: box_defs demo_box_def demo_box_state_def)

end
